theory Spec2Isabelle
  imports Main "HOL-Library.Option_ord"
begin

section \<open>Data model (internal/models)\<close>

text \<open>
  Amounts are Go \<open>int64\<close> values that the code only compares and copies, never adds or
  multiplies, so they are modelled as \<open>int\<close>. A \<open>time.Time\<close> is an \<open>int\<close> (an instant on
  the time line); \<open>Before\<close> is \<open><\<close> and \<open>After\<close> is \<open>>\<close>. A nullable column or pointer
  field is an \<open>option\<close>.
\<close>

type_synonym time = int

datatype AuctionStatus =
    AuctionStatusDraft
  | AuctionStatusActive
  | AuctionStatusCompleted
  | AuctionStatusCancelled

text \<open>The columns of table \<open>auctions\<close>, which are the stored fields of \<open>models.Auction\<close>.\<close>

record Auction =
  aID :: string
  aNFTID :: string
  aSellerWalletID :: string
  aStartPrice :: int
  aReservePrice :: "int option"
  aBuyNowPrice :: "int option"
  aCurrentBid :: "int option"
  aCurrentBidderID :: "string option"
  aStartTime :: time
  aEndTime :: time
  aStatus :: AuctionStatus
  aPSBT :: string
  aCreatedAt :: time
  aUpdatedAt :: time

record Bid =
  bID :: string
  bAuctionID :: string
  bBidderID :: string
  bWalletID :: string
  bAmount :: int
  bCreatedAt :: time
  bAccepted :: bool
  bSignature :: "string option"

record NFT =
  nID :: string
  nWalletID :: string
  nTokenID :: string
  nInscriptionID :: string
  nCollection :: string
  nTitle :: string
  nDescription :: string
  nImageURL :: string
  nContentURL :: string
  nMetadata :: string
  nCreatedAt :: time
  nUpdatedAt :: time
  nAuctionID :: "string option"

record Wallet =
  wID :: string
  wUserID :: string
  wAddress :: string

record PlaceBidRequest =
  rAuctionID :: string
  rAmount :: int
  rWalletID :: string

section \<open>The backing store\<close>

text \<open>
  The database is a record of its tables, each a list of rows. A query
  \<open>SELECT ... WHERE id = $1\<close> read with \<open>Get\<close> yields the first matching row; an
  \<open>UPDATE ... WHERE c\<close> rewrites every row satisfying \<open>c\<close>.
\<close>

record db =
  auctions :: "Auction list"
  bids :: "Bid list"
  nfts :: "NFT list"
  wallets :: "Wallet list"

text \<open>
  The errors the service returns, one constructor for each message of the code:
  \<open>StorageFailure\<close> any error of the repository,
  \<open>NotFound\<close> "auction not found",
  \<open>InvalidState\<close> "auction is not active",
  \<open>NotStarted\<close> "auction has not started yet",
  \<open>Ended\<close> "auction has ended",
  \<open>BidNotHigher\<close> "bid amount must be higher than current bid",
  \<open>BidBelowStart\<close> "bid amount must be at least the start price",
  \<open>WalletNotOwned\<close> "wallet not found or not owned by user",
  \<open>InsufficientBalance\<close> "insufficient balance",
  \<open>NotEnded\<close> "auction has not ended yet",
  \<open>Unauthorized\<close> "only the winning bidder can finalize the auction".
\<close>

datatype error =
    StorageFailure
  | NotFound
  | InvalidState
  | NotStarted
  | Ended
  | BidNotHigher
  | BidBelowStart
  | WalletNotOwned
  | InsufficientBalance
  | NotEnded
  | Unauthorized

text \<open>The two messages that the specification calls \<open>BidTooLow\<close>.\<close>

definition BidTooLow :: "error \<Rightarrow> bool" where
  "BidTooLow e = (e = BidNotHigher \<or> e = BidBelowStart)"

text \<open>
  What an operation reads from outside the program: the clock (\<open>time.Now()\<close>; the
  consecutive readings inside one operation are taken as one instant), the identifier
  \<open>uuid.New()\<close> returns (one not yet in use), and whether the database answers a repository call with an
  error. A repository call that runs in a transaction is rolled back on an error, so all
  that matters of a failure is which call it hits.
\<close>

datatype call =
    CallGetByIDWithNFT
  | CallGetWalletsByUserID
  | CallCreateBid
  | CallCompleteAuction string
  | CallGetEndedAuctions

record env =
  now :: time
  new_uuid :: string
  fails :: "call \<Rightarrow> bool"

section \<open>AuctionRepository and UserRepository (internal/store)\<close>

definition GetByID :: "string \<Rightarrow> db \<Rightarrow> Auction option" where
  "GetByID ident d = find (\<lambda>a. aID a = ident) (auctions d)"

text \<open>
  \<open>GetByIDWithNFT\<close> reads the auction row, then its NFT and its bids; the joined NFT and
  bids are not used by the operations below and are not columns of the row. Any of the
  three queries may fail.
\<close>

definition GetByIDWithNFT :: "env \<Rightarrow> string \<Rightarrow> db \<Rightarrow> error + Auction option" where
  "GetByIDWithNFT e ident d =
     (if fails e CallGetByIDWithNFT then Inl StorageFailure else Inr (GetByID ident d))"

definition GetWalletsByUserID :: "env \<Rightarrow> string \<Rightarrow> db \<Rightarrow> error + Wallet list" where
  "GetWalletsByUserID e userID d =
     (if fails e CallGetWalletsByUserID then Inl StorageFailure
      else Inr (filter (\<lambda>w. wUserID w = userID) (wallets d)))"

text \<open>The three statements of \<open>CreateBid\<close>'s transaction, in the order the code runs them.\<close>

definition insert_bid :: "Bid \<Rightarrow> db \<Rightarrow> db" where
  "insert_bid b d = d\<lparr>bids := bids d @ [b]\<rparr>"

definition select_current_bid :: "string \<Rightarrow> db \<Rightarrow> (int option) option" where
  "select_current_bid ident d = map_option aCurrentBid (GetByID ident d)"

definition update_current_bid :: "Bid \<Rightarrow> time \<Rightarrow> db \<Rightarrow> db" where
  "update_current_bid b t d =
     d\<lparr>auctions := map (\<lambda>a. if aID a = bAuctionID b
                              then a\<lparr>aCurrentBid := Some (bAmount b),
                                     aCurrentBidderID := Some (bBidderID b),
                                     aUpdatedAt := t\<rparr>
                              else a) (auctions d)\<rparr>"

text \<open>\<open>!currentBid.Valid || bid.Amount > currentBid.Int64\<close>\<close>

definition is_highest :: "Bid \<Rightarrow> int option \<Rightarrow> bool" where
  "is_highest b cur = (case cur of None \<Rightarrow> True | Some c \<Rightarrow> bAmount b > c)"

definition stamp_bid :: "env \<Rightarrow> Bid \<Rightarrow> Bid" where
  "stamp_bid e b = b\<lparr>bID := (if bID b = [] then new_uuid e else bID b), bCreatedAt := now e\<rparr>"

text \<open>
  \<open>CreateBid\<close> run alone: insert, select, conditional update, commit. The \<open>SELECT\<close> of a
  missing auction row is \<open>sql.ErrNoRows\<close>, an error like any other, and the transaction
  is rolled back: the caller keeps the database it had.
\<close>

definition CreateBid :: "env \<Rightarrow> Bid \<Rightarrow> db \<Rightarrow> error + (Bid \<times> db)" where
  "CreateBid e b0 d =
     (if fails e CallCreateBid then Inl StorageFailure
      else let b = stamp_bid e b0; d1 = insert_bid b d in
        case select_current_bid (bAuctionID b) d1 of
          None \<Rightarrow> Inl StorageFailure
        | Some cur \<Rightarrow>
            if is_highest b cur then Inr (b, update_current_bid b (now e) d1)
            else Inr (b, d1))"

section \<open>AuctionService.PlaceBid (internal/services/auction_service.go)\<close>

text \<open>\<open>WalletService.GetBalance\<close> is a placeholder that returns 10000000 for every address.\<close>

definition GetBalance :: "string \<Rightarrow> int" where
  "GetBalance address = 10000000"

text \<open>
  The checks of \<open>PlaceBid\<close> on the auction it has read, in the code's order: status,
  start, end, current bid, start price.
\<close>

definition check_bid :: "time \<Rightarrow> Auction \<Rightarrow> int \<Rightarrow> error option" where
  "check_bid t auction amount =
     (if aStatus auction \<noteq> AuctionStatusActive then Some InvalidState
      else if t < aStartTime auction then Some NotStarted
      else if t > aEndTime auction then Some Ended
      else if (case aCurrentBid auction of None \<Rightarrow> False | Some c \<Rightarrow> amount \<le> c)
        then Some BidNotHigher
      else if amount < aStartPrice auction then Some BidBelowStart
      else None)"

text \<open>The wallet and balance checks, and the bid that \<open>PlaceBid\<close> builds.\<close>

definition check_wallet :: "env \<Rightarrow> PlaceBidRequest \<Rightarrow> string \<Rightarrow> db \<Rightarrow> error option" where
  "check_wallet e req userID d =
     (case GetWalletsByUserID e userID d of
        Inl err \<Rightarrow> Some err
      | Inr ws \<Rightarrow>
          (case find (\<lambda>w. wID w = rWalletID req) ws of
             None \<Rightarrow> Some WalletNotOwned
           | Some bidderWallet \<Rightarrow>
               if GetBalance (wAddress bidderWallet) < rAmount req
               then Some InsufficientBalance else None))"

definition new_bid :: "PlaceBidRequest \<Rightarrow> string \<Rightarrow> Bid" where
  "new_bid req userID =
     \<lparr>bID = [], bAuctionID = rAuctionID req, bBidderID = userID, bWalletID = rWalletID req,
      bAmount = rAmount req, bCreatedAt = 0, bAccepted = True, bSignature = None\<rparr>"

text \<open>
  The part of \<open>PlaceBid\<close> before the bid is saved: it reads the auction and the wallets
  and returns the error of the first failing check.
\<close>

definition precheck :: "env \<Rightarrow> PlaceBidRequest \<Rightarrow> string \<Rightarrow> db \<Rightarrow> error option" where
  "precheck e req userID d =
     (case GetByIDWithNFT e (rAuctionID req) d of
        Inl err \<Rightarrow> Some err
      | Inr None \<Rightarrow> Some NotFound
      | Inr (Some auction) \<Rightarrow>
          (case check_bid (now e) auction (rAmount req) of
             Some err \<Rightarrow> Some err
           | None \<Rightarrow> check_wallet e req userID d))"

text \<open>
  \<open>PlaceBid\<close> returns the saved bid or an error, and the database after the call; on
  an error nothing has been written.
\<close>

definition PlaceBid :: "env \<Rightarrow> PlaceBidRequest \<Rightarrow> string \<Rightarrow> db \<Rightarrow> (error + Bid) \<times> db" where
  "PlaceBid e req userID d =
     (case precheck e req userID d of
        Some err \<Rightarrow> (Inl err, d)
      | None \<Rightarrow>
          (case CreateBid e (new_bid req userID) d of
             Inl err \<Rightarrow> (Inl err, d)
           | Inr (b, d') \<Rightarrow> (Inr b, d')))"

section \<open>AuctionRepository.CompleteAuction\<close>

text \<open>
  One transaction: the status update of the auction row, and, for every status other than
  \<open>completed\<close>, the release of the NFTs that reference the auction. Both statements
  write the same \<open>now\<close>.
\<close>

definition set_status :: "string \<Rightarrow> AuctionStatus \<Rightarrow> time \<Rightarrow> Auction \<Rightarrow> Auction" where
  "set_status auctionID status t a =
     (if aID a = auctionID then a\<lparr>aStatus := status, aUpdatedAt := t\<rparr> else a)"

definition release_nft :: "string \<Rightarrow> time \<Rightarrow> NFT \<Rightarrow> NFT" where
  "release_nft auctionID t n =
     (if nAuctionID n = Some auctionID then n\<lparr>nAuctionID := None, nUpdatedAt := t\<rparr> else n)"

definition CompleteAuction :: "env \<Rightarrow> string \<Rightarrow> AuctionStatus \<Rightarrow> db \<Rightarrow> error + db" where
  "CompleteAuction e auctionID status d =
     (if fails e (CallCompleteAuction auctionID) then Inl StorageFailure
      else let d1 = d\<lparr>auctions := map (set_status auctionID status (now e)) (auctions d)\<rparr> in
        if status = AuctionStatusCompleted then Inr d1
        else Inr (d1\<lparr>nfts := map (release_nft auctionID (now e)) (nfts d1)\<rparr>))"

section \<open>AuctionService.FinalizeAuction\<close>

record FinalizeAuctionRequest =
  fAuctionID :: string
  fSignature :: string

definition buyNowTriggered :: "Auction \<Rightarrow> bool" where
  "buyNowTriggered auction =
     (case aBuyNowPrice auction of
        None \<Rightarrow> False
      | Some buyNow \<Rightarrow>
          (case aCurrentBid auction of None \<Rightarrow> False | Some c \<Rightarrow> c \<ge> buyNow))"

text \<open>\<open>auction.ReservePrice != nil && *auction.CurrentBid < *auction.ReservePrice\<close>\<close>

definition reserve_unmet :: "Auction \<Rightarrow> int \<Rightarrow> bool" where
  "reserve_unmet auction currentBid =
     (case aReservePrice auction of None \<Rightarrow> False | Some r \<Rightarrow> currentBid < r)"

text \<open>
  The tail shared by the three exits of \<open>FinalizeAuction\<close> that write: complete the
  auction in the store with the given status and return the auction read before, with
  that status.
\<close>

definition finish :: "env \<Rightarrow> Auction \<Rightarrow> AuctionStatus \<Rightarrow> db \<Rightarrow> (error + Auction) \<times> db" where
  "finish e auction status d =
     (case CompleteAuction e (aID auction) status d of
        Inl err \<Rightarrow> (Inl err, d)
      | Inr d' \<Rightarrow> (Inr (auction\<lparr>aStatus := status\<rparr>), d'))"

definition FinalizeAuction ::
  "env \<Rightarrow> FinalizeAuctionRequest \<Rightarrow> string \<Rightarrow> db \<Rightarrow> (error + Auction) \<times> db" where
  "FinalizeAuction e req userID d =
     (case GetByIDWithNFT e (fAuctionID req) d of
        Inl err \<Rightarrow> (Inl err, d)
      | Inr None \<Rightarrow> (Inl NotFound, d)
      | Inr (Some auction) \<Rightarrow>
          if aStatus auction \<noteq> AuctionStatusActive then (Inl InvalidState, d)
          else if \<not> now e > aEndTime auction \<and> \<not> buyNowTriggered auction
            then (Inl NotEnded, d)
          else
            (case aCurrentBid auction of
               None \<Rightarrow> finish e auction AuctionStatusCancelled d
             | Some currentBid \<Rightarrow>
                 (case aCurrentBidderID auction of
                    None \<Rightarrow> finish e auction AuctionStatusCancelled d
                  | Some bidder \<Rightarrow>
                      if reserve_unmet auction currentBid
                        then finish e auction AuctionStatusCancelled d
                      else if bidder \<noteq> userID then (Inl Unauthorized, d)
                      else finish e auction AuctionStatusCompleted d)))"

section \<open>AuctionService.ProcessEndedAuctions\<close>

text \<open>
  \<open>GetEndedAuctions\<close>: the active auctions with \<open>end_time <= now\<close>, ordered by end time.
\<close>

definition GetEndedAuctions :: "env \<Rightarrow> db \<Rightarrow> error + Auction list" where
  "GetEndedAuctions e d =
     (if fails e CallGetEndedAuctions then Inl StorageFailure
      else Inr (sort_key aEndTime
             (filter (\<lambda>a. aStatus a = AuctionStatusActive \<and> aEndTime a \<le> now e) (auctions d))))"

text \<open>Whether the sweep cancels an auction: no bid, or the reserve price not met.\<close>

definition must_cancel :: "Auction \<Rightarrow> bool" where
  "must_cancel auction =
     (case aCurrentBid auction of
        None \<Rightarrow> True
      | Some currentBid \<Rightarrow>
          (case aCurrentBidderID auction of
             None \<Rightarrow> True
           | Some bidder \<Rightarrow> reserve_unmet auction currentBid))"

text \<open>
  The loop over the auctions read at the start of the sweep. Each \<open>CompleteAuction\<close> is a
  transaction of its own, so what earlier iterations wrote stays written when a later
  one returns the error.
\<close>

fun sweep :: "env \<Rightarrow> Auction list \<Rightarrow> db \<Rightarrow> error option \<times> db" where
  "sweep e [] d = (None, d)"
| "sweep e (auction # rest) d =
     (if must_cancel auction then
        (case CompleteAuction e (aID auction) AuctionStatusCancelled d of
           Inl err \<Rightarrow> (Some err, d)
         | Inr d' \<Rightarrow> sweep e rest d')
      else sweep e rest d)"

definition ProcessEndedAuctions :: "env \<Rightarrow> db \<Rightarrow> error option \<times> db" where
  "ProcessEndedAuctions e d =
     (case GetEndedAuctions e d of
        Inl err \<Rightarrow> (Some err, d)
      | Inr ended \<Rightarrow> sweep e ended d)"

section \<open>Concurrent PlaceBid calls\<close>

text \<open>
  \<open>PlaceBid\<close> is not one atomic action. It reads the auction with queries of its own,
  outside any transaction, and \<open>CreateBid\<close> then runs three statements in a transaction
  opened with the database's default options (\<open>Beginx\<close>): nothing locks the auction row
  between the \<open>SELECT current_bid\<close> and the \<open>UPDATE\<close>, and the \<open>UPDATE\<close> carries no
  condition on \<open>current_bid\<close>. A call in progress is therefore at one of these points:
  \<^item> \<open>Ready\<close>: nothing done yet; the next step is the service's reads and checks;
  \<^item> \<open>Checked b\<close>: the checks passed; next is the \<open>INSERT\<close> of bid \<open>b\<close>, which stays
    private to the transaction until it commits;
  \<^item> \<open>Inserted b\<close>: next is the \<open>SELECT current_bid\<close>;
  \<^item> \<open>Selected b cur\<close>: the transaction has read \<open>cur\<close>; next is the conditional
    \<open>UPDATE\<close> and the commit, which publish the transaction's writes;
  \<^item> \<open>Returned r\<close>: the call has returned \<open>r\<close>.
\<close>

datatype progress =
    Ready PlaceBidRequest string
  | Checked Bid
  | Inserted Bid
  | Selected Bid "int option"
  | Returned "error + Bid"

fun step :: "env \<Rightarrow> progress \<Rightarrow> db \<Rightarrow> progress \<times> db" where
  "step e (Ready req userID) d =
     (case precheck e req userID d of
        Some err \<Rightarrow> (Returned (Inl err), d)
      | None \<Rightarrow>
          if fails e CallCreateBid then (Returned (Inl StorageFailure), d)
          else (Checked (stamp_bid e (new_bid req userID)), d))"
| "step e (Checked b) d = (Inserted b, d)"
| "step e (Inserted b) d =
     (case select_current_bid (bAuctionID b) d of
        None \<Rightarrow> (Returned (Inl StorageFailure), d)
      | Some cur \<Rightarrow> (Selected b cur, d))"
| "step e (Selected b cur) d =
     (Returned (Inr b),
      if is_highest b cur then update_current_bid b (now e) (insert_bid b d)
      else insert_bid b d)"
| "step e (Returned r) d = (Returned r, d)"

text \<open>
  A schedule names, step after step, the call that moves next; each call has its own
  environment.
\<close>

fun run :: "nat list \<Rightarrow> (env \<times> progress) list \<Rightarrow> db \<Rightarrow> (env \<times> progress) list \<times> db" where
  "run [] ps d = (ps, d)"
| "run (i # sched) ps d =
     (if i < length ps then
        (case step (fst (ps ! i)) (snd (ps ! i)) d of
           (p', d') \<Rightarrow> run sched (ps[i := (fst (ps ! i), p')]) d')
      else run sched ps d)"

text \<open>One call run to its end with no other call in between: four steps.\<close>

definition solo :: "env \<Rightarrow> PlaceBidRequest \<Rightarrow> string \<Rightarrow> db \<Rightarrow> (env \<times> progress) list \<times> db" where
  "solo e req userID d = run [0, 0, 0, 0] [(e, Ready req userID)] d"

section \<open>The bids of an auction and its recorded current bid\<close>

definition accepted_amounts :: "db \<Rightarrow> string \<Rightarrow> int list" where
  "accepted_amounts d ident =
     map bAmount (filter (\<lambda>b. bAuctionID b = ident \<and> bAccepted b) (bids d))"


definition currentBid :: "db \<Rightarrow> string \<Rightarrow> int option" where
  "currentBid d ident = (case GetByID ident d of None \<Rightarrow> None | Some a \<Rightarrow> aCurrentBid a)"

definition currentBidderID :: "db \<Rightarrow> string \<Rightarrow> string option" where
  "currentBidderID d ident =
     (case GetByID ident d of None \<Rightarrow> None | Some a \<Rightarrow> aCurrentBidderID a)"



section \<open>The hub (internal/handlers/websocket.go)\<close>

text \<open>
  A \<open>*Client\<close> is a pointer, modelled as a number; the memory maps it to the \<open>Client\<close>
  struct, of which the hub uses the channel \<open>send\<close> and the session uses \<open>userID\<close>. A
  channel is its buffer and whether it has been closed; \<open>make(chan []byte, 256)\<close> gives
  the capacity.
\<close>

type_synonym client = nat
type_synonym message = string

record chan =
  buf :: "message list"
  is_closed :: bool

record Client =
  send :: chan
  userID :: string

definition send_capacity :: nat where
  "send_capacity = 256"

text \<open>
  The Go maps \<open>clients\<close> and \<open>auctionClients[id]\<close> are sets of pointers, kept here as lists
  without repetition; \<open>range\<close> visits them in the list's order (Go leaves the order open,
  and so is the list's). \<open>memory\<close> holds the \<open>Client\<close> structs.
\<close>

record Hub =
  clients :: "client list"
  auctionClients :: "string \<rightharpoonup> client list"
  memory :: "client \<Rightarrow> Client"

datatype panic = SendOnClosedChannel | CloseOfClosedChannel | InterfaceConversion

definition new_chan :: chan where
  "new_chan = \<lparr>buf = [], is_closed = False\<rparr>"

definition NewHub :: Hub where
  "NewHub = \<lparr>clients = [], auctionClients = Map.empty,
             memory = (\<lambda>c. \<lparr>send = new_chan, userID = []\<rparr>)\<rparr>"

text \<open>
  \<open>select { case ch <- m: ... default: ... }\<close>: a send on a closed channel panics;
  otherwise the message is queued when the buffer has room (\<open>Some\<close> the channel after
  the send), and the default branch is taken when it is full (\<open>None\<close>).
\<close>

definition try_send :: "message \<Rightarrow> chan \<Rightarrow> panic + chan option" where
  "try_send m ch =
     (if is_closed ch then Inl SendOnClosedChannel
      else if length (buf ch) < send_capacity then Inr (Some (ch\<lparr>buf := buf ch @ [m]\<rparr>))
      else Inr None)"

text \<open>\<open>close(ch)\<close>: closing a closed channel panics.\<close>

definition close_chan :: "chan \<Rightarrow> panic + chan" where
  "close_chan ch = (if is_closed ch then Inl CloseOfClosedChannel else Inr (ch\<lparr>is_closed := True\<rparr>))"

definition set_send :: "client \<Rightarrow> chan \<Rightarrow> Hub \<Rightarrow> Hub" where
  "set_send c ch h = h\<lparr>memory := (memory h)(c := (memory h c)\<lparr>send := ch\<rparr>)\<rparr>"

text \<open>The three cases of \<open>Hub.Run\<close>.\<close>

definition hub_register :: "client \<Rightarrow> Hub \<Rightarrow> Hub" where
  "hub_register c h = h\<lparr>clients := List.insert c (clients h)\<rparr>"

definition hub_unregister :: "client \<Rightarrow> Hub \<Rightarrow> panic + Hub" where
  "hub_unregister c h =
     (if c \<in> set (clients h) then
        (case close_chan (send (memory h c)) of
           Inl p \<Rightarrow> Inl p
         | Inr ch \<Rightarrow> Inr (set_send c ch (h\<lparr>clients := removeAll c (clients h)\<rparr>)))
      else Inr h)"

fun broadcast_loop :: "message \<Rightarrow> client list \<Rightarrow> Hub \<Rightarrow> panic + Hub" where
  "broadcast_loop m [] h = Inr h"
| "broadcast_loop m (c # cs) h =
     (case try_send m (send (memory h c)) of
        Inl p \<Rightarrow> Inl p
      | Inr (Some ch) \<Rightarrow> broadcast_loop m cs (set_send c ch h)
      | Inr None \<Rightarrow>
          (case close_chan (send (memory h c)) of
             Inl p \<Rightarrow> Inl p
           | Inr ch \<Rightarrow>
               broadcast_loop m cs (set_send c ch (h\<lparr>clients := removeAll c (clients h)\<rparr>))))"

definition hub_broadcast :: "message \<Rightarrow> Hub \<Rightarrow> panic + Hub" where
  "hub_broadcast m h = broadcast_loop m (clients h) h"

definition RegisterAuctionClient :: "client \<Rightarrow> string \<Rightarrow> Hub \<Rightarrow> Hub" where
  "RegisterAuctionClient c auctionID h =
     (let cs = (case auctionClients h auctionID of None \<Rightarrow> [] | Some cs \<Rightarrow> cs)
      in h\<lparr>auctionClients := (auctionClients h)(auctionID \<mapsto> List.insert c cs)\<rparr>)"

definition UnregisterAuctionClient :: "client \<Rightarrow> string \<Rightarrow> Hub \<Rightarrow> Hub" where
  "UnregisterAuctionClient c auctionID h =
     (case auctionClients h auctionID of
        None \<Rightarrow> h
      | Some cs \<Rightarrow>
          if removeAll c cs = [] then h\<lparr>auctionClients := (auctionClients h)(auctionID := None)\<rparr>
          else h\<lparr>auctionClients := (auctionClients h)(auctionID \<mapsto> removeAll c cs)\<rparr>)"

text \<open>
  \<open>BroadcastToAuction\<close>: on a full queue the client's channel is closed and the client
  is deleted from \<open>h.clients\<close> and from the set of this auction.
\<close>

definition drop_from_auction :: "client \<Rightarrow> string \<Rightarrow> Hub \<Rightarrow> Hub" where
  "drop_from_auction c auctionID h =
     (case auctionClients h auctionID of
        None \<Rightarrow> h
      | Some cs \<Rightarrow> h\<lparr>auctionClients := (auctionClients h)(auctionID \<mapsto> removeAll c cs)\<rparr>)"

fun auction_loop :: "string \<Rightarrow> message \<Rightarrow> client list \<Rightarrow> Hub \<Rightarrow> panic + Hub" where
  "auction_loop auctionID m [] h = Inr h"
| "auction_loop auctionID m (c # cs) h =
     (case try_send m (send (memory h c)) of
        Inl p \<Rightarrow> Inl p
      | Inr (Some ch) \<Rightarrow> auction_loop auctionID m cs (set_send c ch h)
      | Inr None \<Rightarrow>
          (case close_chan (send (memory h c)) of
             Inl p \<Rightarrow> Inl p
           | Inr ch \<Rightarrow>
               auction_loop auctionID m cs
                 (drop_from_auction c auctionID
                    (set_send c ch (h\<lparr>clients := removeAll c (clients h)\<rparr>)))))"

definition BroadcastToAuction :: "string \<Rightarrow> message \<Rightarrow> Hub \<Rightarrow> panic + Hub" where
  "BroadcastToAuction auctionID m h =
     (case auctionClients h auctionID of
        None \<Rightarrow> Inr h
      | Some cs \<Rightarrow> auction_loop auctionID m cs h)"

text \<open>The steps that change the hub, and a run of them from a hub state.\<close>

datatype hub_event =
    Register client
  | Unregister client
  | Subscribe client string
  | Unsubscribe client string
  | Broadcast message
  | Publish string message

fun hub_step :: "hub_event \<Rightarrow> Hub \<Rightarrow> panic + Hub" where
  "hub_step (Register c) h = Inr (hub_register c h)"
| "hub_step (Unregister c) h = hub_unregister c h"
| "hub_step (Subscribe c auctionID) h = Inr (RegisterAuctionClient c auctionID h)"
| "hub_step (Unsubscribe c auctionID) h = Inr (UnregisterAuctionClient c auctionID h)"
| "hub_step (Broadcast m) h = hub_broadcast m h"
| "hub_step (Publish auctionID m) h = BroadcastToAuction auctionID m h"

fun hub_run :: "hub_event list \<Rightarrow> Hub \<Rightarrow> panic + Hub" where
  "hub_run [] h = Inr h"
| "hub_run (ev # evs) h = (case hub_step ev h of Inl p \<Rightarrow> Inl p | Inr h' \<Rightarrow> hub_run evs h')"

section \<open>ServeWs\<close>

text \<open>
  A request context maps keys to values of any type. Two keys are equal only when they
  have the same Go type: the untyped string \<open>"userID"\<close> that \<open>ServeWs\<close> looks up is
  \<open>StringKey\<close>, the \<open>handlers.contextKey\<close> constant \<open>UserIDKey\<close> is \<open>ContextKey\<close>. A value
  is a string or something else; a missing key reads as \<open>nil\<close> (\<open>None\<close>).
\<close>

datatype ctx_key = StringKey string | ContextKey string

datatype ctx_value = StringValue string | OtherValue

record request =
  upgradable :: bool
  ctx :: "(ctx_key \<times> ctx_value) list"

definition ctx_Value :: "request \<Rightarrow> ctx_key \<Rightarrow> ctx_value option" where
  "ctx_Value r k = map_of (ctx r) k"

text \<open>
  How the handler ends: the upgrade failed and it returned after logging; it panicked;
  it went on to start the two pumps of the new client.
\<close>

datatype served = UpgradeFailed | Panicked panic | Serving

text \<open>The welcome envelope, named by its type.\<close>

definition welcomeMsg :: message where
  "welcomeMsg = ''welcome''"

text \<open>
  \<open>ServeWs\<close> for a request, with the pointer \<open>c\<close> that the new \<open>Client\<close> would get:
  upgrade, the type assertion \<open>.(string)\<close> on the context value, the new client,
  its registration with the hub and the welcome message on its fresh channel.
\<close>

definition ServeWs :: "request \<Rightarrow> client \<Rightarrow> Hub \<Rightarrow> served \<times> Hub" where
  "ServeWs r c h =
     (if \<not> upgradable r then (UpgradeFailed, h)
      else
        (case ctx_Value r (StringKey ''userID'') of
           Some (StringValue uid) \<Rightarrow>
             (let h1 = h\<lparr>memory := (memory h)(c := \<lparr>send = new_chan, userID = uid\<rparr>)\<rparr>;
                  h2 = hub_register c h1
              in (Serving, set_send c (new_chan\<lparr>buf := [welcomeMsg]\<rparr>) h2))
         | _ \<Rightarrow> (Panicked InterfaceConversion, h)))"

section \<open>Sample data\<close>

text \<open>
  The auction of the specification's first scenario: start price 100000, no reserve and
  no buy-now price, no bid yet, active, open from 10 to 20; two users with a wallet each.
\<close>

definition no_fault :: "call \<Rightarrow> bool" where
  "no_fault c = False"

definition at :: "time \<Rightarrow> env" where
  "at t = \<lparr>now = t, new_uuid = ''bid'', fails = no_fault\<rparr>"

definition at_with :: "time \<Rightarrow> string \<Rightarrow> env" where
  "at_with t ident = \<lparr>now = t, new_uuid = ident, fails = no_fault\<rparr>"

definition auction1 :: Auction where
  "auction1 =
     \<lparr>aID = ''a1'', aNFTID = ''n1'', aSellerWalletID = ''w0'', aStartPrice = 100000,
      aReservePrice = None, aBuyNowPrice = None, aCurrentBid = None, aCurrentBidderID = None,
      aStartTime = 10, aEndTime = 20, aStatus = AuctionStatusActive, aPSBT = ''psbt'',
      aCreatedAt = 0, aUpdatedAt = 0\<rparr>"

definition nft1 :: NFT where
  "nft1 =
     \<lparr>nID = ''n1'', nWalletID = ''w0'', nTokenID = ''t1'', nInscriptionID = ''i1'',
      nCollection = ''c'', nTitle = ''title'', nDescription = [], nImageURL = [],
      nContentURL = [], nMetadata = [], nCreatedAt = 0, nUpdatedAt = 0,
      nAuctionID = Some ''a1''\<rparr>"

definition wallet_alice :: Wallet where
  "wallet_alice = \<lparr>wID = ''w1'', wUserID = ''alice'', wAddress = ''bc1alice''\<rparr>"

definition wallet_bob :: Wallet where
  "wallet_bob = \<lparr>wID = ''w2'', wUserID = ''bob'', wAddress = ''bc1bob''\<rparr>"

definition db1 :: db where
  "db1 = \<lparr>auctions = [auction1], bids = [], nfts = [nft1],
          wallets = [wallet_alice, wallet_bob]\<rparr>"

definition bid_on_a1 :: "int \<Rightarrow> string \<Rightarrow> PlaceBidRequest" where
  "bid_on_a1 amount walletID = \<lparr>rAuctionID = ''a1'', rAmount = amount, rWalletID = walletID\<rparr>"

definition finalize_a1 :: FinalizeAuctionRequest where
  "finalize_a1 = \<lparr>fAuctionID = ''a1'', fSignature = ''sig''\<rparr>"

text \<open>
  The same auction after Alice's accepted bid of 2000000, with a reserve price of
  1000000 (the fourth scenario).
\<close>

definition bid_alice :: Bid where
  "bid_alice =
     \<lparr>bID = ''bid'', bAuctionID = ''a1'', bBidderID = ''alice'', bWalletID = ''w1'',
      bAmount = 2000000, bCreatedAt = 15, bAccepted = True, bSignature = None\<rparr>"

definition auction1_bid :: Auction where
  "auction1_bid =
     auction1\<lparr>aReservePrice := Some 1000000, aCurrentBid := Some 2000000,
              aCurrentBidderID := Some ''alice'', aUpdatedAt := 15\<rparr>"

definition db1_bid :: db where
  "db1_bid = \<lparr>auctions = [auction1_bid], bids = [bid_alice], nfts = [nft1],
              wallets = [wallet_alice, wallet_bob]\<rparr>"

text \<open>
  Two ended auctions without a bid, and a sweep at 40 during which the store fails on
  the completion of the first.
\<close>

definition auction2 :: Auction where
  "auction2 = auction1\<lparr>aID := ''a2'', aNFTID := ''n2'', aEndTime := 30\<rparr>"

definition db2 :: db where
  "db2 = \<lparr>auctions = [auction1, auction2], bids = [], nfts = [nft1],
          wallets = [wallet_alice, wallet_bob]\<rparr>"

definition fault_a1 :: "call \<Rightarrow> bool" where
  "fault_a1 c = (c = CallCompleteAuction ''a1'')"

definition sweep_env :: env where
  "sweep_env = \<lparr>now = 40, new_uuid = ''bid'', fails = fault_a1\<rparr>"

text \<open>
  The fifth scenario: a buy-now price of 5000000 and Alice's bid of exactly that amount.
\<close>

definition auction1_buynow :: Auction where
  "auction1_buynow =
     auction1\<lparr>aBuyNowPrice := Some 5000000, aCurrentBid := Some 5000000,
              aCurrentBidderID := Some ''alice'', aUpdatedAt := 15\<rparr>"

definition db1_buynow :: db where
  "db1_buynow = \<lparr>auctions = [auction1_buynow], bids = [bid_alice\<lparr>bAmount := 5000000\<rparr>],
                 nfts = [nft1], wallets = [wallet_alice, wallet_bob]\<rparr>"

text \<open>The sample database after the auction was cancelled, and after it was completed, at 21.\<close>

definition db1_cancelled :: db where
  "db1_cancelled =
     db1\<lparr>auctions := [auction1\<lparr>aStatus := AuctionStatusCancelled, aUpdatedAt := 21\<rparr>],
         nfts := [nft1\<lparr>nAuctionID := None, nUpdatedAt := 21\<rparr>]\<rparr>"

definition db1_completed :: db where
  "db1_completed =
     db1_bid\<lparr>auctions := [auction1_bid\<lparr>aStatus := AuctionStatusCompleted, aUpdatedAt := 21\<rparr>]\<rparr>"

text \<open>The same sweep with the store failing on the completion of the second auction.\<close>

definition fault_a2 :: "call \<Rightarrow> bool" where
  "fault_a2 c = (c = CallCompleteAuction ''a2'')"

definition sweep_env2 :: env where
  "sweep_env2 = \<lparr>now = 40, new_uuid = ''bid'', fails = fault_a2\<rparr>"

text \<open>
  The three bids of the first scenario, one after the other: Alice bids 150000, Bob bids
  120000, Bob bids 200000.
\<close>

definition scenario1 :: "(env \<times> PlaceBidRequest \<times> string) list" where
  "scenario1 = [(at_with 12 ''bid1'', bid_on_a1 150000 ''w1'', ''alice''),
                (at_with 13 ''bid2'', bid_on_a1 120000 ''w2'', ''bob''),
                (at_with 14 ''bid3'', bid_on_a1 200000 ''w2'', ''bob'')]"

text \<open>Two calls in flight at once: Alice bids 200000 and Bob bids 150000.\<close>

definition race_calls :: "(env \<times> progress) list" where
  "race_calls = [(at_with 12 ''bid1'', Ready (bid_on_a1 200000 ''w1'') ''alice''),
                 (at_with 13 ''bid2'', Ready (bid_on_a1 150000 ''w2'') ''bob'')]"

text \<open>
  Client 7 registers and subscribes to the auctions \<open>a1\<close> and \<open>a2\<close>; then 257 updates of
  \<open>a1\<close> are published while its writer takes none from the queue.
\<close>

definition overflow_events :: "hub_event list" where
  "overflow_events =
     [Register 7, Subscribe 7 ''a1'', Subscribe 7 ''a2''] @ replicate 257 (Publish ''a1'' ''m'')"

text \<open>Client 7 registers, subscribes to \<open>a1\<close> and disconnects.\<close>

definition leave_events :: "hub_event list" where
  "leave_events = [Register 7, Subscribe 7 ''a1'', Unregister 7]"

text \<open>
  An upgradable request that went through \<open>AuthMiddleware\<close>: the user id is in the
  context under the typed key \<open>UserIDKey\<close>, and nothing is under the plain string
  \<open>"userID"\<close>.
\<close>

definition authenticated_request :: request where
  "authenticated_request =
     \<lparr>upgradable = True, ctx = [(ContextKey ''userID'', StringValue ''alice'')]\<rparr>"

section \<open>Unfolding the model\<close>

lemmas service_defs =
  PlaceBid_def precheck_def GetByIDWithNFT_def GetByID_def check_bid_def check_wallet_def
  GetWalletsByUserID_def GetBalance_def CreateBid_def stamp_bid_def new_bid_def insert_bid_def
  select_current_bid_def is_highest_def update_current_bid_def
  FinalizeAuction_def finish_def CompleteAuction_def set_status_def release_nft_def
  buyNowTriggered_def reserve_unmet_def Let_def

lemmas sample_defs =
  at_def at_with_def no_fault_def db1_def auction1_def nft1_def wallet_alice_def wallet_bob_def
  bid_on_a1_def finalize_a1_def bid_alice_def auction1_bid_def db1_bid_def
  auction2_def db2_def fault_a1_def sweep_env_def auction1_buynow_def db1_buynow_def
  db1_cancelled_def db1_completed_def fault_a2_def sweep_env2_def scenario1_def race_calls_def

section \<open>PlaceBid: the amount check\<close>

lemma PlaceBid_error_cases:
  "fst (PlaceBid e req u d) = Inl err \<Longrightarrow>
   precheck e req u d = Some err \<or> (precheck e req u d = None \<and> err = StorageFailure)"
  by (auto simp: PlaceBid_def CreateBid_def Let_def
           split: option.splits sum.splits if_splits prod.splits)

lemma check_wallet_not_low: "check_wallet e req u d = Some err \<Longrightarrow> \<not> BidTooLow err"
  by (auto simp: check_wallet_def GetWalletsByUserID_def BidTooLow_def
           split: option.splits if_splits)

text \<open>
  Claim C3, as the code has it. For an active auction inside its bidding window,
  \<open>PlaceBid\<close> fails with \<open>BidTooLow\<close> exactly when the amount is at most the current bid
  (one being present) or strictly below the start price. So an amount equal to the
  current bid is rejected, an amount equal to the start price is not, and an amount
  strictly above both is never rejected on the amount check.
\<close>

theorem PlaceBid_BidTooLow:
  assumes "GetByIDWithNFT e (rAuctionID req) d = Inr (Some a)"
    and "aStatus a = AuctionStatusActive"
    and "aStartTime a \<le> now e" and "now e \<le> aEndTime a"
  shows "(\<exists>err. fst (PlaceBid e req u d) = Inl err \<and> BidTooLow err) \<longleftrightarrow>
         ((\<exists>c. aCurrentBid a = Some c \<and> rAmount req \<le> c) \<or> rAmount req < aStartPrice a)"
proof
  assume "\<exists>err. fst (PlaceBid e req u d) = Inl err \<and> BidTooLow err"
  then obtain err where r: "fst (PlaceBid e req u d) = Inl err" and low: "BidTooLow err"
    by blast
  from PlaceBid_error_cases[OF r] low have "precheck e req u d = Some err"
    by (auto simp: BidTooLow_def)
  with assms low check_wallet_not_low[of e req u d err]
  have "check_bid (now e) a (rAmount req) = Some err"
    by (auto simp: precheck_def split: option.splits)
  with assms low
  show "(\<exists>c. aCurrentBid a = Some c \<and> rAmount req \<le> c) \<or> rAmount req < aStartPrice a"
    by (auto simp: check_bid_def BidTooLow_def split: if_splits option.splits)
next
  assume "(\<exists>c. aCurrentBid a = Some c \<and> rAmount req \<le> c) \<or> rAmount req < aStartPrice a"
  with assms have "\<exists>err. check_bid (now e) a (rAmount req) = Some err \<and> BidTooLow err"
    by (auto simp: check_bid_def BidTooLow_def split: option.splits)
  with assms show "\<exists>err. fst (PlaceBid e req u d) = Inl err \<and> BidTooLow err"
    by (auto simp: PlaceBid_def precheck_def)
qed

text \<open>
  At 15 Alice bids 99999 on the sample auction (start price 100000, no bid yet): the
  bid is below the start price and is rejected.
\<close>

theorem PlaceBid_BidTooLow_witness:
  "GetByIDWithNFT (at 15) (rAuctionID (bid_on_a1 99999 ''w1'')) db1 = Inr (Some auction1) \<and>
   aStatus auction1 = AuctionStatusActive \<and> aStartTime auction1 \<le> now (at 15) \<and>
   now (at 15) \<le> aEndTime auction1 \<and>
   rAmount (bid_on_a1 99999 ''w1'') < aStartPrice auction1 \<and>
   (\<exists>err. fst (PlaceBid (at 15) (bid_on_a1 99999 ''w1'') ''alice'' db1) = Inl err \<and>
          BidTooLow err)"
proof -
  have h1: "GetByIDWithNFT (at 15) (rAuctionID (bid_on_a1 99999 ''w1'')) db1
            = Inr (Some auction1)"
    by (simp add: service_defs sample_defs)
  have h2: "aStatus auction1 = AuctionStatusActive" by (simp add: sample_defs)
  have h3: "aStartTime auction1 \<le> now (at 15)" by (simp add: sample_defs)
  have h4: "now (at 15) \<le> aEndTime auction1" by (simp add: sample_defs)
  have h5: "rAmount (bid_on_a1 99999 ''w1'') < aStartPrice auction1"
    by (simp add: sample_defs)
  from PlaceBid_BidTooLow[OF h1 h2 h3 h4, of "''alice''"] h1 h2 h3 h4 h5
  show ?thesis by simp
qed

text \<open>
  The claim as written rejects equality with the start price. The code accepts it: with
  no bid yet, Alice's bid of exactly the start price is saved.
\<close>

theorem PlaceBid_at_start_price:
  "aCurrentBid auction1 = None \<and> rAmount (bid_on_a1 100000 ''w1'') = aStartPrice auction1 \<and>
   fst (PlaceBid (at 15) (bid_on_a1 100000 ''w1'') ''alice'' db1) =
     Inr \<lparr>bID = ''bid'', bAuctionID = ''a1'', bBidderID = ''alice'', bWalletID = ''w1'',
          bAmount = 100000, bCreatedAt = 15, bAccepted = True, bSignature = None\<rparr>"
  by (simp add: service_defs sample_defs)

section \<open>PlaceBid: status and bidding window\<close>




section \<open>FinalizeAuction: the time gate\<close>




section \<open>FinalizeAuction: cancel, refuse or complete\<close>






section \<open>CompleteAuction: what it writes\<close>

lemma set_status_frame:
  "(set_status x st t a)\<lparr>aStatus := aStatus a, aUpdatedAt := aUpdatedAt a\<rparr> = a"
  by (simp add: set_status_def)

lemma release_nft_frame:
  "(release_nft x t n)\<lparr>nAuctionID := nAuctionID n, nUpdatedAt := nUpdatedAt n\<rparr> = n"
  by (simp add: release_nft_def)

text \<open>
  Claim C7. When \<open>CompleteAuction\<close> commits: bids and wallets are untouched; every
  auction row keeps all its fields except \<open>status\<close> and \<open>updated_at\<close>, which change only in
  the rows of the completed auction; with status \<open>completed\<close> the NFT table is untouched;
  with status \<open>cancelled\<close> no NFT references the auction any more, and every NFT row keeps
  all its fields except \<open>auction_id\<close> and \<open>updated_at\<close>, which change only in the rows that
  referenced the auction.
\<close>

theorem CompleteAuction_frame:
  assumes "CompleteAuction e auctionID status d = Inr d'"
  shows "bids d' = bids d \<and> wallets d' = wallets d \<and>
         length (auctions d') = length (auctions d) \<and>
         (\<forall>i < length (auctions d).
            (auctions d' ! i)\<lparr>aStatus := aStatus (auctions d ! i),
                               aUpdatedAt := aUpdatedAt (auctions d ! i)\<rparr> = auctions d ! i \<and>
            (if aID (auctions d ! i) = auctionID
             then aStatus (auctions d' ! i) = status \<and> aUpdatedAt (auctions d' ! i) = now e
             else auctions d' ! i = auctions d ! i)) \<and>
         length (nfts d') = length (nfts d) \<and>
         (status = AuctionStatusCompleted \<longrightarrow> nfts d' = nfts d) \<and>
         (status = AuctionStatusCancelled \<longrightarrow>
            (\<forall>n \<in> set (nfts d'). nAuctionID n \<noteq> Some auctionID) \<and>
            (\<forall>i < length (nfts d).
               (nfts d' ! i)\<lparr>nAuctionID := nAuctionID (nfts d ! i),
                              nUpdatedAt := nUpdatedAt (nfts d ! i)\<rparr> = nfts d ! i \<and>
               (if nAuctionID (nfts d ! i) = Some auctionID
                then nAuctionID (nfts d' ! i) = None \<and> nUpdatedAt (nfts d' ! i) = now e
                else nfts d' ! i = nfts d ! i)))"
proof (cases "status = AuctionStatusCompleted")
  case True
  with assms
  have d': "d' = d\<lparr>auctions := map (set_status auctionID status (now e)) (auctions d)\<rparr>"
    by (auto simp: CompleteAuction_def Let_def split: if_splits)
  show ?thesis using True
    by (simp add: d' set_status_frame) (simp add: set_status_def)
next
  case False
  with assms
  have d': "d' = d\<lparr>auctions := map (set_status auctionID status (now e)) (auctions d),
                    nfts := map (release_nft auctionID (now e)) (nfts d)\<rparr>"
    by (auto simp: CompleteAuction_def Let_def split: if_splits)
  have a: "\<forall>i < length (auctions d).
            (auctions d' ! i)\<lparr>aStatus := aStatus (auctions d ! i),
                               aUpdatedAt := aUpdatedAt (auctions d ! i)\<rparr> = auctions d ! i \<and>
            (if aID (auctions d ! i) = auctionID
             then aStatus (auctions d' ! i) = status \<and> aUpdatedAt (auctions d' ! i) = now e
             else auctions d' ! i = auctions d ! i)"
    by (simp add: d' set_status_frame) (simp add: set_status_def)
  have n1: "\<forall>n \<in> set (nfts d'). nAuctionID n \<noteq> Some auctionID"
    by (auto simp: d' release_nft_def)
  have n2: "\<forall>i < length (nfts d).
               (nfts d' ! i)\<lparr>nAuctionID := nAuctionID (nfts d ! i),
                              nUpdatedAt := nUpdatedAt (nfts d ! i)\<rparr> = nfts d ! i \<and>
               (if nAuctionID (nfts d ! i) = Some auctionID
                then nAuctionID (nfts d' ! i) = None \<and> nUpdatedAt (nfts d' ! i) = now e
                else nfts d' ! i = nfts d ! i)"
    by (simp add: d' release_nft_frame) (simp add: release_nft_def)
  have b: "bids d' = bids d \<and> wallets d' = wallets d \<and>
           length (auctions d') = length (auctions d) \<and> length (nfts d') = length (nfts d)"
    by (simp add: d')
  from a b n1 n2 False show ?thesis by blast
qed

text \<open>
  Cancelling the sample auction clears the reference of its NFT; completing the auction
  that Alice leads leaves the NFT table as it was, reference included.
\<close>

theorem CompleteAuction_frame_witness:
  "CompleteAuction (at 21) ''a1'' AuctionStatusCancelled db1 = Inr db1_cancelled \<and>
   map nAuctionID (nfts db1) = [Some ''a1''] \<and> map nAuctionID (nfts db1_cancelled) = [None] \<and>
   CompleteAuction (at 21) ''a1'' AuctionStatusCompleted db1_bid = Inr db1_completed \<and>
   nfts db1_completed = nfts db1_bid \<and> map nAuctionID (nfts db1_completed) = [Some ''a1'']"
proof -
  have h1: "CompleteAuction (at 21) ''a1'' AuctionStatusCancelled db1 = Inr db1_cancelled"
    by (simp add: service_defs sample_defs)
  have h2: "CompleteAuction (at 21) ''a1'' AuctionStatusCompleted db1_bid = Inr db1_completed"
    by (simp add: service_defs sample_defs)
  have v: "map nAuctionID (nfts db1) = [Some ''a1''] \<and>
           map nAuctionID (nfts db1_cancelled) = [None] \<and>
           map nAuctionID (nfts db1_completed) = [Some ''a1'']"
    by (simp add: sample_defs)
  from CompleteAuction_frame[OF h1] CompleteAuction_frame[OF h2] h1 h2 v
  show ?thesis by simp
qed

section \<open>PlaceBid one call after the other: the current bid is the highest bid\<close>














section \<open>PlaceBid calls in flight at once: a lost update\<close>

text \<open>
  The steps of one call, run with no other call in between, are \<open>PlaceBid\<close>: the same
  result and the same database.
\<close>

lemma solo_PlaceBid:
  "solo e req u d = ([(e, Returned (fst (PlaceBid e req u d)))], snd (PlaceBid e req u d))"
  by (auto simp: solo_def PlaceBid_def CreateBid_def Let_def select_current_bid_def GetByID_def
        insert_bid_def split: option.splits sum.splits if_splits)

text \<open>Run one after the other, Alice's 200000 is accepted and Bob's 150000 is rejected.\<close>

lemma race_calls_in_turn:
  "map snd (fst (run [0, 0, 0, 0, 1, 1, 1, 1] race_calls db1)) =
     [Returned (Inr \<lparr>bID = ''bid1'', bAuctionID = ''a1'', bBidderID = ''alice'',
                     bWalletID = ''w1'', bAmount = 200000, bCreatedAt = 12, bAccepted = True,
                     bSignature = None\<rparr>),
      Returned (Inl BidNotHigher)] \<and>
   currentBid (snd (run [0, 0, 0, 0, 1, 1, 1, 1] race_calls db1)) ''a1'' = Some 200000"
  by (simp add: currentBid_def service_defs sample_defs)

text \<open>
  Claim C2 fails on the code. Let the two calls alternate step by step: both read the
  auction while it has no bid and pass the checks, both transactions select an absent
  \<open>current_bid\<close>, Alice's transaction writes 200000 and commits, and Bob's then writes
  150000 over it. Both calls return their bid as accepted, the bids table holds 200000
  and 150000, and the auction ends with current bid 150000 and bidder Bob: the update to
  200000 is lost.
\<close>

theorem lost_update:
  "map snd (fst (run [0, 1, 0, 1, 0, 1, 0, 1] race_calls db1)) =
     [Returned (Inr \<lparr>bID = ''bid1'', bAuctionID = ''a1'', bBidderID = ''alice'',
                     bWalletID = ''w1'', bAmount = 200000, bCreatedAt = 12, bAccepted = True,
                     bSignature = None\<rparr>),
      Returned (Inr \<lparr>bID = ''bid2'', bAuctionID = ''a1'', bBidderID = ''bob'',
                     bWalletID = ''w2'', bAmount = 150000, bCreatedAt = 13, bAccepted = True,
                     bSignature = None\<rparr>)] \<and>
   accepted_amounts (snd (run [0, 1, 0, 1, 0, 1, 0, 1] race_calls db1)) ''a1''
     = [200000, 150000] \<and>
   currentBid (snd (run [0, 1, 0, 1, 0, 1, 0, 1] race_calls db1)) ''a1'' = Some 150000 \<and>
   currentBidderID (snd (run [0, 1, 0, 1, 0, 1, 0, 1] race_calls db1)) ''a1'' = Some ''bob''"
  by (simp add: accepted_amounts_def currentBid_def currentBidderID_def service_defs
                sample_defs)

section \<open>ProcessEndedAuctions: a storage failure ends the sweep\<close>

lemma CompleteAuction_auctions:
  "CompleteAuction e x st d = Inr d' \<Longrightarrow>
   auctions d' = map (set_status x st (now e)) (auctions d)"
  by (auto simp: CompleteAuction_def Let_def split: if_splits)

lemma sweep_no_failure:
  assumes "\<forall>b \<in> set xs. must_cancel b \<longrightarrow> \<not> fails e (CallCompleteAuction (aID b))"
  shows "sweep e (xs @ ys) d = sweep e ys (snd (sweep e xs d))"
  using assms
  by (induction xs arbitrary: d) (auto simp: CompleteAuction_def Let_def)

text \<open>
  A sweep during which the store answers: every row keeps its identifier; the rows of
  the auctions to cancel are cancelled, the others are as before.
\<close>

lemma sweep_effect:
  assumes "\<forall>b \<in> set xs. must_cancel b \<longrightarrow> \<not> fails e (CallCompleteAuction (aID b))"
  shows "length (auctions (snd (sweep e xs d))) = length (auctions d) \<and>
         (\<forall>i < length (auctions d).
            aID (auctions (snd (sweep e xs d)) ! i) = aID (auctions d ! i) \<and>
            (if aID (auctions d ! i) \<in> aID ` {b \<in> set xs. must_cancel b}
             then aStatus (auctions (snd (sweep e xs d)) ! i) = AuctionStatusCancelled
             else auctions (snd (sweep e xs d)) ! i = auctions d ! i))"
  using assms
proof (induction xs arbitrary: d)
  case Nil
  then show ?case by simp
next
  case (Cons a xs)
  from Cons.prems
  have rest: "\<forall>b \<in> set xs. must_cancel b \<longrightarrow> \<not> fails e (CallCompleteAuction (aID b))"
    by simp
  show ?case
  proof (cases "must_cancel a")
    case False
    have eq: "{b \<in> set (a # xs). must_cancel b} = {b \<in> set xs. must_cancel b}"
      using False by auto
    have sw: "sweep e (a # xs) d = sweep e xs d" using False by simp
    from Cons.IH[OF rest, of d] show ?thesis unfolding sw eq .
  next
    case True
    with Cons.prems have ok: "\<not> fails e (CallCompleteAuction (aID a))" by simp
    then obtain d1 where c: "CompleteAuction e (aID a) AuctionStatusCancelled d = Inr d1"
      by (simp add: CompleteAuction_def Let_def)
    have a1: "auctions d1 = map (set_status (aID a) AuctionStatusCancelled (now e)) (auctions d)"
      by (rule CompleteAuction_auctions[OF c])
    have sw: "sweep e (a # xs) d = sweep e xs d1" using True c by simp
    have eq: "aID ` {b \<in> set (a # xs). must_cancel b}
              = insert (aID a) (aID ` {b \<in> set xs. must_cancel b})"
      using True by auto
    from Cons.IH[OF rest, of d1]
    have ih: "length (auctions (snd (sweep e xs d1))) = length (auctions d1)"
      "\<And>i. i < length (auctions d1) \<Longrightarrow>
            aID (auctions (snd (sweep e xs d1)) ! i) = aID (auctions d1 ! i) \<and>
            (if aID (auctions d1 ! i) \<in> aID ` {b \<in> set xs. must_cancel b}
             then aStatus (auctions (snd (sweep e xs d1)) ! i) = AuctionStatusCancelled
             else auctions (snd (sweep e xs d1)) ! i = auctions d1 ! i)"
      by auto
    show ?thesis
      unfolding sw eq
    proof (rule conjI, goal_cases)
      case 1
      show ?case using ih(1) by (simp add: a1)
    next
      case 2
      have "aID (auctions (snd (sweep e xs d1)) ! i) = aID (auctions d ! i) \<and>
            (if aID (auctions d ! i) \<in> insert (aID a) (aID ` {b \<in> set xs. must_cancel b})
             then aStatus (auctions (snd (sweep e xs d1)) ! i) = AuctionStatusCancelled
             else auctions (snd (sweep e xs d1)) ! i = auctions d ! i)"
        if i: "i < length (auctions d)" for i
      proof -
        from i have i1: "i < length (auctions d1)" by (simp add: a1)
        have r: "auctions d1 ! i
                 = set_status (aID a) AuctionStatusCancelled (now e) (auctions d ! i)"
          using i by (simp add: a1)
        from ih(2)[OF i1] show ?thesis
          by (auto simp: r set_status_def split: if_splits)
      qed
      then show ?case by blast
    qed
  qed
qed

text \<open>
  Claim C8, as the code has it. When the store fails on the completion of an auction
  that the sweep has to cancel, \<open>ProcessEndedAuctions\<close> returns that error at once.
  The auctions before it in the list have been examined, and those to cancel are
  cancelled; every other row of the auctions table, so the failing auction and the
  auctions after it in the list, is as it was before the sweep.
\<close>

theorem sweep_stops_at_failure:
  assumes ended: "GetEndedAuctions e d = Inr (pre @ a # post)"
    and ok: "\<forall>b \<in> set pre. must_cancel b \<longrightarrow> \<not> fails e (CallCompleteAuction (aID b))"
    and cancel: "must_cancel a"
    and bad: "fails e (CallCompleteAuction (aID a))"
  shows "fst (ProcessEndedAuctions e d) = Some StorageFailure \<and>
         length (auctions (snd (ProcessEndedAuctions e d))) = length (auctions d) \<and>
         (\<forall>i < length (auctions d).
            if aID (auctions d ! i) \<in> aID ` {b \<in> set pre. must_cancel b}
            then aStatus (auctions (snd (ProcessEndedAuctions e d)) ! i) = AuctionStatusCancelled
            else auctions (snd (ProcessEndedAuctions e d)) ! i = auctions d ! i)"
proof -
  have "ProcessEndedAuctions e d = sweep e (pre @ a # post) d"
    using ended by (simp add: ProcessEndedAuctions_def)
  also have "\<dots> = (Some StorageFailure, snd (sweep e pre d))"
    using cancel bad by (simp add: sweep_no_failure[OF ok] CompleteAuction_def)
  finally have p: "ProcessEndedAuctions e d = (Some StorageFailure, snd (sweep e pre d))" .
  from sweep_effect[OF ok, of d] show ?thesis by (simp add: p)
qed

text \<open>
  Two ended auctions without bids, the store failing on the second: the first is
  cancelled, the second stays active, and the sweep returns the error.
\<close>

theorem sweep_stops_at_failure_witness:
  "GetEndedAuctions sweep_env2 db2 = Inr ([auction1] @ auction2 # []) \<and>
   must_cancel auction1 \<and> \<not> fails sweep_env2 (CallCompleteAuction (aID auction1)) \<and>
   must_cancel auction2 \<and> fails sweep_env2 (CallCompleteAuction (aID auction2)) \<and>
   fst (ProcessEndedAuctions sweep_env2 db2) = Some StorageFailure \<and>
   map aStatus (auctions (snd (ProcessEndedAuctions sweep_env2 db2)))
     = [AuctionStatusCancelled, AuctionStatusActive]"
proof -
  have h1: "GetEndedAuctions sweep_env2 db2 = Inr ([auction1] @ auction2 # [])"
    by (simp add: GetEndedAuctions_def service_defs sample_defs)
  have v: "must_cancel auction1 \<and> \<not> fails sweep_env2 (CallCompleteAuction (aID auction1))"
    by (simp add: must_cancel_def sample_defs)
  then have h2: "\<forall>b \<in> set [auction1].
                  must_cancel b \<longrightarrow> \<not> fails sweep_env2 (CallCompleteAuction (aID b))"
    by simp
  have h3: "must_cancel auction2" by (simp add: must_cancel_def sample_defs)
  have h4: "fails sweep_env2 (CallCompleteAuction (aID auction2))" by (simp add: sample_defs)
  have r: "map aStatus (auctions (snd (ProcessEndedAuctions sweep_env2 db2)))
           = [AuctionStatusCancelled, AuctionStatusActive]"
    by (simp add: ProcessEndedAuctions_def GetEndedAuctions_def must_cancel_def service_defs
                  sample_defs)
  from sweep_stops_at_failure[OF h1 h2 h3 h4] h1 v h3 h4 r show ?thesis by simp
qed

text \<open>
  The claim as written has the sweep go on after a failure. In the code it does not: the
  store fails on the first of the two auctions, the store would answer for the second,
  whose cancellation conditions hold, and the sweep returns with the second auction
  still active and the database unchanged.
\<close>

theorem sweep_leaves_later_auction:
  "GetEndedAuctions sweep_env db2 = Inr [auction1, auction2] \<and>
   fails sweep_env (CallCompleteAuction (aID auction1)) \<and>
   must_cancel auction2 \<and> \<not> fails sweep_env (CallCompleteAuction (aID auction2)) \<and>
   ProcessEndedAuctions sweep_env db2 = (Some StorageFailure, db2) \<and>
   map aStatus (auctions db2) = [AuctionStatusActive, AuctionStatusActive]"
  by (simp add: ProcessEndedAuctions_def GetEndedAuctions_def must_cancel_def service_defs
                sample_defs)

section \<open>The hub: a closed client that stays subscribed\<close>

lemma hub_run_append:
  "hub_run (xs @ ys) h = (case hub_run xs h of Inl p \<Rightarrow> Inl p | Inr h' \<Rightarrow> hub_run ys h')"
  by (induction xs arbitrary: h) (auto split: sum.splits)

text \<open>
  Publishing \<open>n\<close> messages to an auction whose only subscriber has room for them queues
  them all.
\<close>

lemma publish_fills:
  assumes "auctionClients h a = Some [c]" and "\<not> is_closed (send (memory h c))"
    and "length (buf (send (memory h c))) + n \<le> send_capacity"
  shows "\<exists>h'. hub_run (replicate n (Publish a m)) h = Inr h' \<and> clients h' = clients h \<and>
              auctionClients h' = auctionClients h \<and> \<not> is_closed (send (memory h' c)) \<and>
              length (buf (send (memory h' c))) = length (buf (send (memory h c))) + n"
  using assms
proof (induction n arbitrary: h)
  case 0
  then show ?case by simp
next
  case (Suc n)
  let ?h1 = "set_send c ((send (memory h c))\<lparr>buf := buf (send (memory h c)) @ [m]\<rparr>) h"
  from Suc.prems have s: "hub_step (Publish a m) h = Inr ?h1"
    by (simp add: BroadcastToAuction_def try_send_def)
  from Suc.prems have "auctionClients ?h1 a = Some [c]" "\<not> is_closed (send (memory ?h1 c))"
    "length (buf (send (memory ?h1 c))) + n \<le> send_capacity"
    by (simp_all add: set_send_def)
  from Suc.IH[OF this] obtain h' where
    "hub_run (replicate n (Publish a m)) ?h1 = Inr h'" "clients h' = clients ?h1"
    "auctionClients h' = auctionClients ?h1" "\<not> is_closed (send (memory h' c))"
    "length (buf (send (memory h' c))) = length (buf (send (memory ?h1 c))) + n"
    by blast
  with s show ?case by (simp add: set_send_def)
qed

text \<open>
  One more message on the full queue closes the channel and deletes the client from
  \<open>clients\<close> and from the set of that auction; the sets of other auctions are not touched.
\<close>

lemma publish_overflows:
  assumes "auctionClients h a = Some [c]" and "\<not> is_closed (send (memory h c))"
    and "length (buf (send (memory h c))) = send_capacity"
  shows "\<exists>h'. hub_step (Publish a m) h = Inr h' \<and> clients h' = removeAll c (clients h) \<and>
              auctionClients h' = (auctionClients h)(a \<mapsto> []) \<and>
              is_closed (send (memory h' c))"
  using assms
  by (simp add: BroadcastToAuction_def try_send_def close_chan_def set_send_def
        drop_from_auction_def)

text \<open>
  Claim C9 fails on the code. Client 7 registers, subscribes to the auctions \<open>a1\<close> and
  \<open>a2\<close> and does not read; the 257th update of \<open>a1\<close> finds its queue of 256 full. The hub
  then closes the client's channel and deletes it from \<open>clients\<close> and from the set of
  \<open>a1\<close>, but the client is still in the subscription set of \<open>a2\<close>, and the next update
  published to \<open>a2\<close> is sent on the closed channel: the hub panics.
\<close>

theorem closed_client_stays_subscribed:
  "\<exists>h. hub_run overflow_events NewHub = Inr h \<and> is_closed (send (memory h 7)) \<and>
        7 \<notin> set (clients h) \<and> auctionClients h ''a1'' = Some [] \<and>
        auctionClients h ''a2'' = Some [7] \<and>
        hub_step (Publish ''a2'' ''m'') h = Inl SendOnClosedChannel"
proof -
  let ?h0 = "RegisterAuctionClient 7 ''a2''
               (RegisterAuctionClient 7 ''a1'' (hub_register 7 NewHub))"
  have h0: "auctionClients ?h0 ''a1'' = Some [7]" "\<not> is_closed (send (memory ?h0 7))"
    "length (buf (send (memory ?h0 7))) + 256 \<le> send_capacity"
    "auctionClients ?h0 ''a2'' = Some [7]" "clients ?h0 = [7]"
    by (simp_all add: RegisterAuctionClient_def hub_register_def NewHub_def new_chan_def
          send_capacity_def)
  from publish_fills[OF h0(1-3), of "''m''"] obtain h1 where
    h1: "hub_run (replicate 256 (Publish ''a1'' ''m'')) ?h0 = Inr h1"
      "clients h1 = clients ?h0"
      "auctionClients h1 = auctionClients ?h0" "\<not> is_closed (send (memory h1 7))"
      "length (buf (send (memory h1 7))) = length (buf (send (memory ?h0 7))) + 256"
    by blast
  from h1(5) have full: "length (buf (send (memory h1 7))) = send_capacity"
    by (simp add: RegisterAuctionClient_def hub_register_def NewHub_def new_chan_def
          send_capacity_def)
  have s1: "auctionClients h1 ''a1'' = Some [7]" by (simp add: h1(3) h0(1))
  from publish_overflows[OF s1 h1(4) full, of "''m''"] obtain h2 where
    h2: "hub_step (Publish ''a1'' ''m'') h1 = Inr h2" "clients h2 = removeAll 7 (clients h1)"
      "auctionClients h2 = (auctionClients h1)(''a1'' \<mapsto> [])"
      "is_closed (send (memory h2 7))"
    by blast
  have split: "overflow_events
      = [Register 7, Subscribe 7 ''a1'', Subscribe 7 ''a2'']
        @ replicate 256 (Publish ''a1'' ''m'') @ [Publish ''a1'' ''m'']"
    unfolding overflow_events_def
    using replicate_add[of 256 1 "Publish ''a1'' ''m''"] by simp
  have run: "hub_run overflow_events NewHub = Inr h2"
    unfolding split using h2(1) by (simp add: hub_run_append h1(1))
  have c: "7 \<notin> set (clients h2)" by (simp add: h2(2))
  have sub1: "auctionClients h2 ''a1'' = Some []" by (simp add: h2(3))
  have sub2: "auctionClients h2 ''a2'' = Some [7]" by (simp add: h2(3) h1(3) h0(4))
  have "hub_step (Publish ''a2'' ''m'') h2 = Inl SendOnClosedChannel"
    by (simp add: BroadcastToAuction_def sub2 try_send_def h2(4))
  with run h2(4) c sub1 sub2 show ?thesis by simp
qed

text \<open>
  The same happens without any overflow: a client that disconnects is closed and deleted
  from \<open>clients\<close> by the unregister case, stays in the set of the auction it subscribed
  to, and the next update of that auction panics.
\<close>

lemma unregistered_client_stays_subscribed:
  "\<exists>h. hub_run leave_events NewHub = Inr h \<and> is_closed (send (memory h 7)) \<and>
        7 \<notin> set (clients h) \<and> auctionClients h ''a1'' = Some [7] \<and>
        hub_step (Publish ''a1'' ''m'') h = Inl SendOnClosedChannel"
  by (simp add: leave_events_def hub_unregister_def RegisterAuctionClient_def hub_register_def
        NewHub_def new_chan_def close_chan_def set_send_def BroadcastToAuction_def try_send_def)

section \<open>ServeWs: the unchecked type assertion\<close>

text \<open>
  Claim C10. Take a request whose context holds no string under the key \<open>"userID"\<close>
  (nothing, or a value of another type). If the upgrader accepts it as a WebSocket
  upgrade, \<open>ServeWs\<close> panics on the type assertion. In every case the hub is as it was:
  no client has been registered. (A request that the upgrader refuses is no WebSocket
  upgrade: it is logged and the handler returns before the assertion.)
\<close>

theorem ServeWs_panics:
  assumes "\<forall>uid. ctx_Value r (StringKey ''userID'') \<noteq> Some (StringValue uid)"
  shows "(upgradable r \<longrightarrow> fst (ServeWs r c h) = Panicked InterfaceConversion) \<and>
         snd (ServeWs r c h) = h"
  using assms by (auto simp: ServeWs_def split: option.splits ctx_value.splits)

text \<open>
  The request that went through \<open>AuthMiddleware\<close> carries the user id under the typed key
  only, so the lookup of the plain string finds nothing and the handler panics.
\<close>

theorem ServeWs_panics_witness:
  "upgradable authenticated_request \<and>
   ctx_Value authenticated_request (StringKey ''userID'') = None \<and>
   ServeWs authenticated_request 7 NewHub = (Panicked InterfaceConversion, NewHub)"
proof -
  have u: "upgradable authenticated_request" by (simp add: authenticated_request_def)
  have n: "ctx_Value authenticated_request (StringKey ''userID'') = None"
    by (simp add: authenticated_request_def ctx_Value_def)
  then have a: "\<forall>uid. ctx_Value authenticated_request (StringKey ''userID'')
                      \<noteq> Some (StringValue uid)"
    by simp
  from ServeWs_panics[OF a, of 7 NewHub] u n show ?thesis by (simp add: prod_eq_iff)
qed

end
